theory Spec2Isabelle
  imports Main "HOL-Library.Word" "HOL-Library.AList"
begin

section \<open>JSON-like values\<close>

text \<open>
  A schema is whatever a JSON document parses to in Python: \<^verbatim>\<open>None\<close>, a bool, an int,
  a float, a str, a list or a dict with str keys.  A dict is an association list in
  insertion order, which is the order Python iterates it in; a Python dict has no
  duplicate keys, which \<open>wf_json\<close> says.  A float is kept as its 64 bits: the normaliser
  never looks inside one.  A str is a HOL string holding the UTF-8 encoding of the text.
\<close>

datatype json =
    JNull
  | JBool bool
  | JInt int
  | JFloat "64 word"
  | JStr string
  | JList "json list"
  | JDict "(string \<times> json) list"

fun wf_json :: "json \<Rightarrow> bool" where
  "wf_json (JDict schema) =
     (distinct (map fst schema) \<and> list_all (\<lambda>(key, value). wf_json value) schema)"
| "wf_json (JList items) = list_all wf_json items"
| "wf_json schema = True"

lemma size_dict_value: "(k, v) \<in> set kvs \<Longrightarrow> size v < size (JDict kvs)"
  by (induction kvs) auto

lemma rewritten_entry:
  assumes "(k, v) \<in> set (AList.delete a (AList.update b new kvs))"
  shows "v = new \<or> (k, v) \<in> set kvs"
proof -
  from assms have "(k, v) \<in> set (AList.update b new kvs)"
    by (simp add: AList.delete_eq)
  then have "(k, v) \<in> insert (b, new) (set kvs)"
    by (induction kvs) (auto split: if_splits)
  then show ?thesis by auto
qed

section \<open>The schema normaliser\<close>

text \<open>
  \<^verbatim>\<open>LangChainAgent.fix_schema\<close>.  On a dict whose \<^verbatim>\<open>"type"\<close> is a list, the Python
  stores \<^verbatim>\<open>schema["anyOf"] = [{"type": t} for t in schema["type"]]\<close> (\<open>AList.update\<close>:
  in place when the key exists, appended otherwise) and then deletes \<^verbatim>\<open>"type"\<close>; after
  that it replaces every value of the dict by its own normal form.  Anything that is
  not a dict, a list included, is returned as it is.  The Python works in place and
  returns its argument; the model returns the new value.  The recursion follows the
  dict values only, so the measure is the size of a dict and 0 elsewhere: the freshly
  built \<^verbatim>\<open>anyOf\<close> list is visited, and is returned at once.
\<close>

function (sequential) fix_schema :: "json \<Rightarrow> json" where
  "fix_schema (JDict schema) =
     (let schema' =
        (case map_of schema ''type'' of
           Some (JList ts) \<Rightarrow>
             AList.delete ''type''
               (AList.update ''anyOf'' (JList (map (\<lambda>t. JDict [(''type'', t)]) ts)) schema)
         | _ \<Rightarrow> schema)
      in JDict (map (\<lambda>(key, value). (key, fix_schema value)) schema'))"
| "fix_schema schema = schema"
  by pat_completeness auto
termination
proof (relation "measure (\<lambda>j. case j of JDict kvs \<Rightarrow> size j | _ \<Rightarrow> 0)")
  show "wf (measure (\<lambda>j. case j of JDict kvs \<Rightarrow> size j | _ \<Rightarrow> 0))"
    by simp
next
  fix schema schema' :: "(string \<times> json) list" and entry :: "string \<times> json" and key "value"
  assume conv: "schema' =
        (case map_of schema ''type'' of
           Some (JList ts) \<Rightarrow>
             AList.delete ''type''
               (AList.update ''anyOf'' (JList (map (\<lambda>t. JDict [(''type'', t)]) ts)) schema)
         | _ \<Rightarrow> schema)"
    and mem: "entry \<in> set schema'" and entry: "(key, value) = entry"
  have "(\<exists>ts. value = JList ts) \<or> (key, value) \<in> set schema"
    using conv mem entry
    by (auto split: option.splits json.splits dest: rewritten_entry)
  then show "(value, JDict schema) \<in> measure (\<lambda>j. case j of JDict kvs \<Rightarrow> size j | _ \<Rightarrow> 0)"
  proof
    assume "\<exists>ts. value = JList ts"
    then show ?thesis by auto
  next
    assume "(key, value) \<in> set schema"
    from size_dict_value [OF this] show ?thesis
      by (cases "value") auto
  qed
qed

text \<open>The first half of the dict case on its own, and the test it starts with.\<close>

definition is_list_type :: "(string \<times> json) list \<Rightarrow> bool" where
  "is_list_type schema = (case map_of schema ''type'' of Some (JList ts) \<Rightarrow> True | _ \<Rightarrow> False)"

definition type_to_anyOf :: "(string \<times> json) list \<Rightarrow> (string \<times> json) list" where
  "type_to_anyOf schema =
     (case map_of schema ''type'' of
        Some (JList ts) \<Rightarrow>
          AList.delete ''type''
            (AList.update ''anyOf'' (JList (map (\<lambda>t. JDict [(''type'', t)]) ts)) schema)
      | _ \<Rightarrow> schema)"

lemma fix_schema_dict:
  "fix_schema (JDict schema) =
     JDict (map (\<lambda>(key, value). (key, fix_schema value)) (type_to_anyOf schema))"
  by (simp add: type_to_anyOf_def)

lemma fix_schema_is_list: "(fix_schema v = JList ts) = (v = JList ts)"
  by (cases v) (simp_all add: Let_def)

lemma map_of_fixed:
  "map_of (map (\<lambda>(key, value). (key, fix_schema value)) kvs) k =
     map_option fix_schema (map_of kvs k)"
  by (induction kvs) auto

lemma type_to_anyOf_not_list_type: "\<not> is_list_type (type_to_anyOf schema)"
  by (auto simp: type_to_anyOf_def is_list_type_def AList.delete_conv'
      split: option.splits json.splits)

lemma fixed_is_list_type:
  "is_list_type (map (\<lambda>(key, value). (key, fix_schema value)) kvs) = is_list_type kvs"
  by (auto simp: is_list_type_def map_of_fixed fix_schema_is_list
      split: option.splits json.splits)

lemma type_to_anyOf_id: "\<not> is_list_type schema \<Longrightarrow> type_to_anyOf schema = schema"
  by (auto simp: type_to_anyOf_def is_list_type_def split: option.splits json.splits)

text \<open>
  C4.  Normalising is idempotent: for every schema \<open>s\<close>, a second pass over the
  result of the first changes nothing.
\<close>

theorem fix_schema_idempotent: "fix_schema (fix_schema s) = fix_schema s"
proof (induction s rule: fix_schema.induct)
  case (1 schema)
  let ?F = "\<lambda>(key, value). (key, fix_schema value)"
  have once: "fix_schema (JDict schema) = JDict (map ?F (type_to_anyOf schema))"
    by (rule fix_schema_dict)
  have "\<not> is_list_type (map ?F (type_to_anyOf schema))"
    using type_to_anyOf_not_list_type fixed_is_list_type by blast
  then have stable:
    "type_to_anyOf (map ?F (type_to_anyOf schema)) = map ?F (type_to_anyOf schema)"
    by (rule type_to_anyOf_id)
  have "fix_schema value = fix_schema (fix_schema value)"
    if "(key, value) \<in> set (type_to_anyOf schema)" for key "value"
    using "1.IH" [OF _ that refl] by (simp add: type_to_anyOf_def)
  then have "map ?F (map ?F (type_to_anyOf schema)) = map ?F (type_to_anyOf schema)"
    by (auto simp del: fix_schema.simps)
  with once stable show ?case
    by (simp only: fix_schema_dict)
qed simp_all

theorem fix_schema_idempotent_witness:
  "fix_schema (fix_schema (JDict [(''type'', JList [JStr ''string'', JStr ''null''])])) =
   JDict [(''anyOf'', JList [JDict [(''type'', JStr ''string'')], JDict [(''type'', JStr ''null'')]])]"
  using fix_schema_idempotent [of "JDict [(''type'', JList [JStr ''string'', JStr ''null''])]"]
  by simp

text \<open>
  What the claim says of the result, in the claim's own terms, next to what the
  normaliser reaches.  \<open>list_type_free\<close> follows the normaliser's own path, from a dict
  to the values of that dict; \<open>deep_list_type_free\<close> also enters lists, and so looks at
  every dict of the structure.  \<open>structurally_equivalent s result\<close> says that \<open>result\<close>
  is \<open>s\<close> with its list-valued \<^verbatim>\<open>type\<close> fields replaced and nothing else changed: a
  value that is not a dict is the same value; a dict is a dict that binds every key of
  the original, a list-valued \<^verbatim>\<open>type\<close> apart, to an equivalent value, that has, in
  place of a list-valued \<^verbatim>\<open>type\<close>, an \<^verbatim>\<open>anyOf\<close> with one \<^verbatim>\<open>{"type": t}\<close> per entry, and
  that has no other key.  \<open>no_anyOf_beside_list_type\<close> holds when no dict on the
  normaliser's path has an \<^verbatim>\<open>anyOf\<close> key next to a list-valued \<^verbatim>\<open>type\<close>.
\<close>

fun is_dict :: "json \<Rightarrow> bool" where
  "is_dict (JDict schema) = True"
| "is_dict schema = False"

fun list_type_free :: "json \<Rightarrow> bool" where
  "list_type_free (JDict schema) =
     (\<not> is_list_type schema \<and> list_all (\<lambda>(key, value). list_type_free value) schema)"
| "list_type_free schema = True"

fun deep_list_type_free :: "json \<Rightarrow> bool" where
  "deep_list_type_free (JDict schema) =
     (\<not> is_list_type schema \<and> list_all (\<lambda>(key, value). deep_list_type_free value) schema)"
| "deep_list_type_free (JList items) = list_all deep_list_type_free items"
| "deep_list_type_free schema = True"

fun structurally_equivalent :: "json \<Rightarrow> json \<Rightarrow> bool" where
  "structurally_equivalent (JDict schema) result =
     (case result of
        JDict schema' \<Rightarrow>
          list_all
            (\<lambda>(key, value).
               (key = ''type'' \<and> is_list_type schema) \<or>
               (case map_of schema' key of
                  Some value' \<Rightarrow> structurally_equivalent value value'
                | None \<Rightarrow> False))
            schema \<and>
          (case map_of schema ''type'' of
             Some (JList ts) \<Rightarrow>
               map_of schema' ''type'' = None \<and>
               map_of schema' ''anyOf'' = Some (JList (map (\<lambda>t. JDict [(''type'', t)]) ts))
           | _ \<Rightarrow> True) \<and>
          list_all
            (\<lambda>(key, value').
               key \<in> set (map fst schema) \<or> (key = ''anyOf'' \<and> is_list_type schema))
            schema'
      | _ \<Rightarrow> False)"
| "structurally_equivalent s result = (result = s)"

fun no_anyOf_beside_list_type :: "json \<Rightarrow> bool" where
  "no_anyOf_beside_list_type (JDict schema) =
     (\<not> (is_list_type schema \<and> ''anyOf'' \<in> set (map fst schema)) \<and>
      list_all (\<lambda>(key, value). no_anyOf_beside_list_type value) schema)"
| "no_anyOf_beside_list_type schema = True"

lemma fix_schema_list_type_free: "list_type_free (fix_schema s)"
proof (induction s rule: fix_schema.induct)
  case (1 schema)
  let ?F = "\<lambda>(key, value). (key, fix_schema value)"
  have top: "\<not> is_list_type (map ?F (type_to_anyOf schema))"
    using type_to_anyOf_not_list_type fixed_is_list_type by blast
  have "list_type_free (fix_schema value)"
    if "(key, value) \<in> set (type_to_anyOf schema)" for key "value"
    using "1.IH" [OF _ that refl] by (simp add: type_to_anyOf_def)
  then have "list_all (\<lambda>(key, value). list_type_free value) (map ?F (type_to_anyOf schema))"
    by (auto simp: list_all_iff simp del: fix_schema.simps)
  with top show ?case
    by (simp only: fix_schema_dict list_type_free.simps) simp
qed simp_all

lemma fix_schema_not_dict: "\<not> is_dict s \<Longrightarrow> fix_schema s = s"
  by (cases s) simp_all

lemma rewritten_entry_key:
  assumes "(k, v) \<in> set (AList.delete a (AList.update b new kvs))"
  shows "(k = b \<and> v = new) \<or> (k, v) \<in> set kvs"
proof -
  from assms have "(k, v) \<in> set (AList.update b new kvs)"
    by (simp add: AList.delete_eq)
  then show ?thesis
    by (induction kvs) (auto split: if_splits)
qed

lemma type_to_anyOf_lookup:
  assumes "key \<noteq> ''type''" and "\<not> (is_list_type schema \<and> key = ''anyOf'')"
  shows "map_of (type_to_anyOf schema) key = map_of schema key"
  using assms
  by (auto simp: type_to_anyOf_def is_list_type_def AList.delete_conv' AList.update_conv'
      split: option.splits json.splits)

lemma type_to_anyOf_keys:
  assumes "(key, value) \<in> set (type_to_anyOf schema)"
  shows "key \<in> set (map fst schema) \<or> (key = ''anyOf'' \<and> is_list_type schema)"
proof (cases "is_list_type schema")
  case False
  with assms show ?thesis
    by (force simp: type_to_anyOf_id)
next
  case True
  with assms show ?thesis
    by (force simp: type_to_anyOf_def split: option.splits json.splits
        dest!: rewritten_entry_key)
qed

lemma fix_schema_structurally_equivalent:
  "wf_json s \<Longrightarrow> no_anyOf_beside_list_type s \<Longrightarrow> structurally_equivalent s (fix_schema s)"
proof (induction s)
  case (JDict schema)
  let ?F = "\<lambda>(key, value). (key, fix_schema value)"
  let ?schema' = "map ?F (type_to_anyOf schema)"
  have dist: "distinct (map fst schema)"
    using JDict.prems(1) by simp
  have clash: "\<not> (is_list_type schema \<and> ''anyOf'' \<in> set (map fst schema))"
    using JDict.prems(2) by simp
  have below: "structurally_equivalent value (fix_schema value)"
    if "(key, value) \<in> set schema" for key "value"
  proof -
    have "wf_json value" "no_anyOf_beside_list_type value"
      using JDict.prems that by (auto simp: list_all_iff)
    moreover have "value \<in> Basic_BNFs.snds (key, value)"
      by simp
    ultimately show ?thesis
      using JDict.IH that by blast
  qed
  have kept: "(key = ''type'' \<and> is_list_type schema) \<or>
      (case map_of ?schema' key of
         Some value' \<Rightarrow> structurally_equivalent value value'
       | None \<Rightarrow> False)"
    if entry: "(key, value) \<in> set schema" for key "value"
  proof (cases "key = ''type''")
    case True
    show ?thesis
    proof (cases "is_list_type schema")
      case True
      with \<open>key = ''type''\<close> show ?thesis by simp
    next
      case False
      have "map_of schema key = Some value"
        using dist entry by simp
      then have "map_of ?schema' key = Some (fix_schema value)"
        using False by (simp add: map_of_fixed type_to_anyOf_id)
      then show ?thesis
        using below [OF entry] by simp
    qed
  next
    case False
    have "key \<in> set (map fst schema)"
      using entry by force
    with clash have "\<not> (is_list_type schema \<and> key = ''anyOf'')"
      by blast
    with False have "map_of (type_to_anyOf schema) key = map_of schema key"
      by (rule type_to_anyOf_lookup)
    moreover have "map_of schema key = Some value"
      using dist entry by simp
    ultimately have "map_of ?schema' key = Some (fix_schema value)"
      by (simp only: map_of_fixed) simp
    then show ?thesis
      using below [OF entry] by simp
  qed
  have replaced: "case map_of schema ''type'' of
       Some (JList ts) \<Rightarrow>
         map_of ?schema' ''type'' = None \<and>
         map_of ?schema' ''anyOf'' = Some (JList (map (\<lambda>t. JDict [(''type'', t)]) ts))
     | _ \<Rightarrow> True"
    by (auto simp: map_of_fixed type_to_anyOf_def AList.delete_conv' AList.update_conv'
        split: option.splits json.splits)
  have nothing_new:
    "key \<in> set (map fst schema) \<or> (key = ''anyOf'' \<and> is_list_type schema)"
    if "(key, value') \<in> set ?schema'" for key value'
  proof -
    from that obtain "value" where "(key, value) \<in> set (type_to_anyOf schema)"
      by auto
    then show ?thesis
      by (rule type_to_anyOf_keys)
  qed
  have "list_all
      (\<lambda>(key, value).
         (key = ''type'' \<and> is_list_type schema) \<or>
         (case map_of ?schema' key of
            Some value' \<Rightarrow> structurally_equivalent value value'
          | None \<Rightarrow> False))
      schema"
    using kept unfolding list_all_iff by blast
  moreover have "list_all
      (\<lambda>(key, value').
         key \<in> set (map fst schema) \<or> (key = ''anyOf'' \<and> is_list_type schema))
      ?schema'"
    using nothing_new unfolding list_all_iff by blast
  ultimately show ?case
    using replaced by (simp only: fix_schema_dict structurally_equivalent.simps json.case)
qed simp_all

text \<open>The normaliser keeps a dict a dict: no key appears twice in its result either.\<close>

lemma wf_fix_schema: "wf_json s \<Longrightarrow> wf_json (fix_schema s)"
proof (induction s rule: fix_schema.induct)
  case (1 schema)
  let ?F = "\<lambda>(key, value). (key, fix_schema value)"
  have keys: "map fst (map ?F kvs) = map fst kvs" for kvs :: "(string \<times> json) list"
    by (induction kvs) auto
  have wf_in: "wf_json v" if "(k, v) \<in> set schema" for k v
    using "1.prems" that by (auto simp: list_all_iff)
  have d: "distinct (map fst (type_to_anyOf schema))"
    using "1.prems"
    by (auto simp: type_to_anyOf_def AList.distinct_delete AList.distinct_update
        split: option.splits json.splits)
  have "wf_json value" if "(key, value) \<in> set (type_to_anyOf schema)" for key "value"
  proof (cases "is_list_type schema")
    case False
    then show ?thesis using that wf_in by (simp add: type_to_anyOf_id)
  next
    case True
    then obtain ts where ts: "map_of schema ''type'' = Some (JList ts)"
      by (auto simp: is_list_type_def split: option.splits json.splits)
    then have "wf_json (JList ts)"
      using wf_in map_of_SomeD by fast
    then have "wf_json (JList (map (\<lambda>t. JDict [(''type'', t)]) ts))"
      by (auto simp: list_all_iff)
    then show ?thesis
      using that ts wf_in by (auto simp: type_to_anyOf_def dest!: rewritten_entry)
  qed
  then have "wf_json (fix_schema value)"
    if "(key, value) \<in> set (type_to_anyOf schema)" for key "value"
    using "1.IH" [OF _ that refl] that by (simp add: type_to_anyOf_def)
  then have "list_all (\<lambda>(key, value). wf_json value) (map ?F (type_to_anyOf schema))"
    by (auto simp: list_all_iff simp del: fix_schema.simps)
  moreover have "distinct (map fst (map ?F (type_to_anyOf schema)))"
    using d by (simp only: keys)
  ultimately show ?case
    by (simp only: fix_schema_dict wf_json.simps)
qed simp_all

text \<open>
  C1, as stated, asks that no dict at any depth keeps a list-valued \<^verbatim>\<open>type\<close>, the dicts
  inside list values included, and that the result is structurally equivalent to the
  input, for every schema.  The normaliser returns a list as it is, so a dict inside an
  \<^verbatim>\<open>anyOf\<close> array keeps its list-valued \<^verbatim>\<open>type\<close>:
  \<^verbatim>\<open>{"anyOf": [{"type": ["string", "null"]}]}\<close> comes back unchanged.  And the normaliser
  stores the new \<^verbatim>\<open>anyOf\<close> over one that is there already:
  \<^verbatim>\<open>{"type": ["string", "null"], "anyOf": [{"minLength": 1}]}\<close> comes back as
  \<^verbatim>\<open>{"anyOf": [{"type": "string"}, {"type": "null"}]}\<close>, its former \<^verbatim>\<open>anyOf\<close> gone, which
  is not an equivalent schema.
\<close>

theorem fix_schema_skips_lists:
  "fix_schema (JDict [(''anyOf'', JList [JDict [(''type'', JList [JStr ''string'', JStr ''null''])]])])
     = JDict [(''anyOf'', JList [JDict [(''type'', JList [JStr ''string'', JStr ''null''])]])]
   \<and> \<not> deep_list_type_free
        (fix_schema
          (JDict [(''anyOf'', JList [JDict [(''type'', JList [JStr ''string'', JStr ''null''])]])]))
   \<and> fix_schema
        (JDict [(''type'', JList [JStr ''string'', JStr ''null'']),
                (''anyOf'', JList [JDict [(''minLength'', JInt 1)]])])
     = JDict [(''anyOf'', JList [JDict [(''type'', JStr ''string'')], JDict [(''type'', JStr ''null'')]])]
   \<and> \<not> structurally_equivalent
        (JDict [(''type'', JList [JStr ''string'', JStr ''null'']),
                (''anyOf'', JList [JDict [(''minLength'', JInt 1)]])])
        (fix_schema
          (JDict [(''type'', JList [JStr ''string'', JStr ''null'']),
                  (''anyOf'', JList [JDict [(''minLength'', JInt 1)]])]))"
  by (simp add: is_list_type_def)

text \<open>
  C1, amended.  For every schema \<open>s\<close>, the result of the normaliser has no list-valued
  \<^verbatim>\<open>type\<close> in any dict reached from the root through dict values alone, and an input
  that is not a dict, a list included, is returned unchanged.  When no dict on those
  paths has an \<^verbatim>\<open>anyOf\<close> key next to a list-valued \<^verbatim>\<open>type\<close>, the result is structurally
  equivalent to \<open>s\<close>: each list-valued \<^verbatim>\<open>type\<close> on those paths is replaced by an \<^verbatim>\<open>anyOf\<close>
  with one \<^verbatim>\<open>{"type": t}\<close> per entry, every other key is kept with an equivalent value,
  and no other key is added.
\<close>

theorem fix_schema_normal_form:
  "list_type_free (fix_schema s) \<and>
   (\<not> is_dict s \<longrightarrow> fix_schema s = s) \<and>
   (wf_json s \<and> no_anyOf_beside_list_type s \<longrightarrow> structurally_equivalent s (fix_schema s))"
  using fix_schema_list_type_free fix_schema_not_dict fix_schema_structurally_equivalent
  by blast

theorem fix_schema_normal_form_witness:
  "fix_schema
     (JDict [(''type'', JStr ''object''),
             (''properties'', JDict [(''x'',
                JDict [(''type'', JList [JStr ''string'', JStr ''null'']),
                       (''title'', JStr ''x'')])])])
     = JDict [(''type'', JStr ''object''),
              (''properties'', JDict [(''x'',
                 JDict [(''title'', JStr ''x''),
                        (''anyOf'', JList [JDict [(''type'', JStr ''string'')],
                                          JDict [(''type'', JStr ''null'')]])])])] \<and>
   list_type_free
     (JDict [(''type'', JStr ''object''),
             (''properties'', JDict [(''x'',
                JDict [(''title'', JStr ''x''),
                       (''anyOf'', JList [JDict [(''type'', JStr ''string'')],
                                         JDict [(''type'', JStr ''null'')]])])])]) \<and>
   wf_json
     (JDict [(''type'', JStr ''object''),
             (''properties'', JDict [(''x'',
                JDict [(''type'', JList [JStr ''string'', JStr ''null'']),
                       (''title'', JStr ''x'')])])]) \<and>
   no_anyOf_beside_list_type
     (JDict [(''type'', JStr ''object''),
             (''properties'', JDict [(''x'',
                JDict [(''type'', JList [JStr ''string'', JStr ''null'']),
                       (''title'', JStr ''x'')])])]) \<and>
   structurally_equivalent
     (JDict [(''type'', JStr ''object''),
             (''properties'', JDict [(''x'',
                JDict [(''type'', JList [JStr ''string'', JStr ''null'']),
                       (''title'', JStr ''x'')])])])
     (JDict [(''type'', JStr ''object''),
             (''properties'', JDict [(''x'',
                JDict [(''title'', JStr ''x''),
                       (''anyOf'', JList [JDict [(''type'', JStr ''string'')],
                                         JDict [(''type'', JStr ''null'')]])])])]) \<and>
   \<not> is_dict (JList [JDict [(''type'', JList [JStr ''string'', JStr ''null''])]]) \<and>
   fix_schema (JList [JDict [(''type'', JList [JStr ''string'', JStr ''null''])]])
     = JList [JDict [(''type'', JList [JStr ''string'', JStr ''null''])]]"
  using
    fix_schema_normal_form
      [of "JDict [(''type'', JStr ''object''),
             (''properties'', JDict [(''x'',
                JDict [(''type'', JList [JStr ''string'', JStr ''null'']),
                       (''title'', JStr ''x'')])])]"]
    fix_schema_normal_form
      [of "JList [JDict [(''type'', JList [JStr ''string'', JStr ''null''])]]"]
  by (simp add: is_list_type_def)

section \<open>The protocol types\<close>

text \<open>
  \<^verbatim>\<open>pymcp/types.py\<close>.  A field with a default may be left out when the object is built:
  an argument is \<open>None\<close> when the caller leaves it out and \<open>Some v\<close> when the caller
  passes \<open>v\<close>.  The result envelope has the same two fields whatever its items are (the
  items of \<^verbatim>\<open>pymcp\<close> here, the items of the protocol library in the decoder below), so
  the record takes the item type as a parameter.  The classes are pydantic models:
  building a \<^verbatim>\<open>ToolResult\<close> validates the \<^verbatim>\<open>content\<close> argument against
  \<^verbatim>\<open>list[TextContent | dict[str, Any]]\<close> before it is stored, which may refuse the argument
  and may convert an item (a dict that fits \<^verbatim>\<open>TextContent\<close> becomes one).  That validation
  is the library's; it is a parameter of the constructor, from what the caller passes
  to the stored items or the raised exception.
\<close>

definition default_arg :: "'a \<Rightarrow> 'a option \<Rightarrow> 'a" where
  "default_arg d arg = (case arg of None \<Rightarrow> d | Some v \<Rightarrow> v)"

record Tool =
  name :: string
  description :: "string option"
  inputSchema :: "(string \<times> json) list"
  outputSchema :: "(string \<times> json) list option"

record pymcp_TextContent =
  tc_type :: string
  tc_text :: string
  tc_mime_type :: "string option"

definition new_TextContent ::
  "string option \<Rightarrow> string \<Rightarrow> string option option \<Rightarrow> pymcp_TextContent" where
  "new_TextContent kind body mime =
     \<lparr>tc_type = default_arg ''text'' kind, tc_text = body,
      tc_mime_type = default_arg (Some ''text/plain'') mime\<rparr>"

datatype pymcp_content = Text pymcp_TextContent | Dict "(string \<times> json) list"

record 'item ToolResult =
  content :: "'item list"
  isError :: bool

section \<open>Exceptions\<close>

text \<open>
  A value of \<open>exn\<close> is an exception object of a class below \<^verbatim>\<open>Exception\<close>, which is
  what \<^verbatim>\<open>except Exception\<close> catches, with the text \<^verbatim>\<open>str(e)\<close> gives for it.
  \<open>OtherException\<close> is an exception of any other such class, raised by a collaborator.
  Signals outside \<^verbatim>\<open>Exception\<close> (a cancelled task, an interrupt) are not values of
  this type.
\<close>

datatype exn =
    ToolException string
  | UnicodeDecodeError string
  | NotImplementedError string
  | RuntimeError string
  | KeyError string
  | AttributeError string
  | OtherException string

fun str_exn :: "exn \<Rightarrow> string" where
  "str_exn (ToolException msg) = msg"
| "str_exn (UnicodeDecodeError msg) = msg"
| "str_exn (NotImplementedError msg) = msg"
| "str_exn (RuntimeError msg) = msg"
| "str_exn (KeyError msg) = msg"
| "str_exn (AttributeError msg) = msg"
| "str_exn (OtherException msg) = msg"

text \<open>
  The constructor of \<^verbatim>\<open>ToolResult\<close>: the content is what the validation makes of the
  argument, the flag is \<^verbatim>\<open>False\<close> unless the caller passes one, and a refused argument
  raises.
\<close>

definition new_ToolResult ::
  "('raw \<Rightarrow> exn + 'item list) \<Rightarrow> 'raw \<Rightarrow> bool option \<Rightarrow> exn + 'item ToolResult" where
  "new_ToolResult validate_content raw flag =
     (case validate_content raw of
        Inl e \<Rightarrow> Inl e
      | Inr items \<Rightarrow> Inr \<lparr>content = items, isError = default_arg False flag\<rparr>)"

section \<open>The tool-result decoder\<close>

subsection \<open>Bytes and text\<close>

text \<open>
  \<^verbatim>\<open>bytes.decode()\<close> decodes strictly as UTF-8: it raises \<^verbatim>\<open>UnicodeDecodeError\<close> unless
  the bytes are well-formed, which means that each character is one byte up to 7F, or
  a lead byte C2..DF, E0..EF or F0..F4 followed by one, two or three continuation bytes
  80..BF, the first of them narrowed after E0 (no overlong form), ED (no surrogate),
  F0 (no overlong form) and F4 (nothing above U+10FFFF).  A str being its UTF-8
  encoding here, the text of well-formed bytes is those bytes as characters.
\<close>

type_synonym byte = "8 word"

definition continuation :: "byte \<Rightarrow> bool" where
  "continuation b = (0x80 \<le> b \<and> b \<le> 0xBF)"

fun utf8_valid :: "byte list \<Rightarrow> bool" where
  "utf8_valid [] = True"
| "utf8_valid (b0 # bs) =
     (if b0 \<le> 0x7F then utf8_valid bs
      else if 0xC2 \<le> b0 \<and> b0 \<le> 0xDF then
        (case bs of b1 # r \<Rightarrow> continuation b1 \<and> utf8_valid r | _ \<Rightarrow> False)
      else if 0xE0 \<le> b0 \<and> b0 \<le> 0xEF then
        (case bs of
           b1 # b2 # r \<Rightarrow>
             (if b0 = 0xE0 then 0xA0 \<le> b1 \<and> b1 \<le> 0xBF
              else if b0 = 0xED then 0x80 \<le> b1 \<and> b1 \<le> 0x9F
              else continuation b1)
             \<and> continuation b2 \<and> utf8_valid r
         | _ \<Rightarrow> False)
      else if 0xF0 \<le> b0 \<and> b0 \<le> 0xF4 then
        (case bs of
           b1 # b2 # b3 # r \<Rightarrow>
             (if b0 = 0xF0 then 0x90 \<le> b1 \<and> b1 \<le> 0xBF
              else if b0 = 0xF4 then 0x80 \<le> b1 \<and> b1 \<le> 0x8F
              else continuation b1)
             \<and> continuation b2 \<and> continuation b3 \<and> utf8_valid r
         | _ \<Rightarrow> False)
      else False)"

definition text_of_bytes :: "byte list \<Rightarrow> string" where
  "text_of_bytes bs = map (\<lambda>b. char_of (unat b)) bs"

subsection \<open>Content items\<close>

text \<open>
  A content item is one of the three kinds the protocol declares, told apart by its
  \<^verbatim>\<open>type\<close> tag (\<^verbatim>\<open>"text"\<close>, \<^verbatim>\<open>"image"\<close>, \<^verbatim>\<open>"resource"\<close>), or an item of some other
  kind, \<open>OtherContent\<close> with that other tag.  An embedded resource is an object with the
  three attributes the decoder reads, \<^verbatim>\<open>type\<close>, \<^verbatim>\<open>text\<close> and \<^verbatim>\<open>blob\<close>, each of which
  may be missing (\<open>None\<close>).  The decoder asks \<^verbatim>\<open>hasattr\<close> for \<^verbatim>\<open>text\<close> and \<^verbatim>\<open>blob\<close>; it
  reads \<^verbatim>\<open>type\<close> without asking, and reading an attribute that is missing raises
  \<^verbatim>\<open>AttributeError\<close>.  A blob is a \<^verbatim>\<open>bytes\<close> object or it is not; what is not \<^verbatim>\<open>bytes\<close>
  is kept as the text \<^verbatim>\<open>str\<close> gives for it, which for a str is the str itself.
\<close>

datatype blob = Bytes "byte list" | NotBytes string

record resource_contents =
  resource_type :: "string option"
  resource_text :: "string option"
  resource_blob :: "blob option"

datatype content_item =
    TextContent string
  | ImageContent string
  | EmbeddedResource resource_contents
  | OtherContent string

type_synonym CallToolResult = "content_item ToolResult"

text \<open>
  Three texts are made by libraries that are not part of this repository: the \<^verbatim>\<open>repr\<close>
  of a content list (which is also what an f-string writes for a list), the message
  of the \<^verbatim>\<open>UnicodeDecodeError\<close> that \<^verbatim>\<open>bytes.decode()\<close> raises, and the message of the
  \<^verbatim>\<open>AttributeError\<close> for a resource without \<^verbatim>\<open>type\<close>.  They are parameters of the
  model, and every theorem below holds whatever they return.
\<close>

record renderings =
  repr_content :: "content_item list \<Rightarrow> string"
  str_decode_error :: "byte list \<Rightarrow> string"
  str_attribute_error :: "resource_contents \<Rightarrow> string"

subsection \<open>The decoder\<close>

text \<open>
  \<^verbatim>\<open>_parse_mcp_tool_result\<close>.  \<open>decode_items\<close> is its \<^verbatim>\<open>for\<close> loop, the first argument
  being \<^verbatim>\<open>decoded_result\<close> so far; a \<^verbatim>\<open>raise\<close> ends the loop with \<open>Inl\<close>.
\<close>

definition bytes_decode :: "renderings \<Rightarrow> byte list \<Rightarrow> exn + string" where
  "bytes_decode L bs =
     (if utf8_valid bs then Inr (text_of_bytes bs)
      else Inl (UnicodeDecodeError (str_decode_error L bs)))"

fun decode_items :: "renderings \<Rightarrow> string \<Rightarrow> content_item list \<Rightarrow> exn + string" where
  "decode_items L decoded_result [] = Inr decoded_result"
| "decode_items L decoded_result (item # rest) =
     (case item of
        TextContent text \<Rightarrow> decode_items L (decoded_result @ text) rest
      | ImageContent data \<Rightarrow> decode_items L (decoded_result @ data) rest
      | EmbeddedResource resource \<Rightarrow>
          (case resource_text resource of
             Some text \<Rightarrow> decode_items L (decoded_result @ text) rest
           | None \<Rightarrow>
               (case resource_blob resource of
                  Some (Bytes bs) \<Rightarrow>
                    (case bytes_decode L bs of
                       Inl e \<Rightarrow> Inl e
                     | Inr text \<Rightarrow> decode_items L (decoded_result @ text) rest)
                | Some (NotBytes s) \<Rightarrow> decode_items L (decoded_result @ s) rest
                | None \<Rightarrow>
                    (case resource_type resource of
                       Some kind \<Rightarrow>
                         Inl (ToolException (''Unexpected resource type: '' @ kind))
                     | None \<Rightarrow>
                         Inl (AttributeError (str_attribute_error L resource)))))
      | OtherContent kind \<Rightarrow> Inl (ToolException (''Unexpected content type: '' @ kind)))"

definition parse_mcp_tool_result :: "renderings \<Rightarrow> CallToolResult \<Rightarrow> exn + string" where
  "parse_mcp_tool_result L tool_result =
     (if isError tool_result then
        Inl (ToolException (''Tool execution failed: '' @ repr_content L (content tool_result)))
      else if content tool_result = [] then
        Inl (ToolException ''Tool execution returned no content'')
      else decode_items L [] (content tool_result))"

text \<open>A pair of renderings for the closed examples; nothing depends on its texts.\<close>

definition sample_renderings :: renderings where
  "sample_renderings =
     \<lparr>repr_content = (\<lambda>items. ''[...]''), str_decode_error = (\<lambda>bs. ''invalid utf-8''),
      str_attribute_error = (\<lambda>resource. ''no attribute type'')\<rparr>"

lemma ascii_valid: "list_all (\<lambda>b. b \<le> 0x7F) bs \<Longrightarrow> utf8_valid bs"
  by (induction bs) auto

lemma text_of_hi: "text_of_bytes [0x68, 0x69] = ''hi''"
  by code_simp

lemma decode_text_items: "decode_items L acc (map TextContent ts) = Inr (acc @ concat ts)"
  by (induction ts arbitrary: acc) auto

lemma resource_item_step:
  "resource_text r = None \<Longrightarrow>
     decode_items L acc (EmbeddedResource r # rest) =
       (case resource_blob r of
          Some (Bytes bs) \<Rightarrow>
            (if utf8_valid bs then decode_items L (acc @ text_of_bytes bs) rest
             else Inl (UnicodeDecodeError (str_decode_error L bs)))
        | Some (NotBytes s) \<Rightarrow> decode_items L (acc @ s) rest
        | None \<Rightarrow>
            (case resource_type r of
               Some kind \<Rightarrow> Inl (ToolException (''Unexpected resource type: '' @ kind))
             | None \<Rightarrow> Inl (AttributeError (str_attribute_error L r))))"
  by (simp add: bytes_decode_def split: option.splits blob.splits)

lemma resource_error_origin:
  "decode_items L acc items = Inl (ToolException (''Unexpected resource type: '' @ k)) \<Longrightarrow>
     \<exists>r. EmbeddedResource r \<in> set items \<and> resource_text r = None \<and>
         resource_blob r = None \<and> resource_type r = Some k"
proof (induction items arbitrary: acc)
  case Nil
  then show ?case by simp
next
  case (Cons item rest)
  then show ?case
    by (auto simp: bytes_decode_def
        split: content_item.splits option.splits blob.splits if_splits)
qed

text \<open>
  For the closed examples: what the validation does to a list of \<^verbatim>\<open>TextContent\<close>
  objects, or to a list of the protocol's items given to the protocol's envelope,
  which is to keep them.
\<close>

definition accept_TextContents :: "pymcp_TextContent list \<Rightarrow> exn + pymcp_content list" where
  "accept_TextContents items = Inr (map Text items)"

definition accept_items :: "content_item list \<Rightarrow> exn + content_item list" where
  "accept_items items = Inr items"

text \<open>
  C10.  Every \<^verbatim>\<open>ToolResult\<close> that is built has its error flag set exactly when the
  caller passed \<^verbatim>\<open>True\<close> for it: built from its content alone it has
  \<^verbatim>\<open>isError = False\<close>, and its content is what the validation made of the argument;
  whenever the validation accepts the content, the result is built.  The decoder treats
  a result built from its content alone as a success: it never reports a failed
  execution, it reports missing content or decodes the items.
\<close>

theorem new_ToolResult_default:
  "(new_ToolResult validate_content raw flag = Inr r \<longrightarrow>
      isError r = (flag = Some True) \<and> validate_content raw = Inr (content r)) \<and>
   (validate_content raw = Inr items \<longrightarrow>
      new_ToolResult validate_content raw None = Inr \<lparr>content = items, isError = False\<rparr>) \<and>
   (new_ToolResult validate_items raw_items None = Inr tool_result \<longrightarrow>
      parse_mcp_tool_result L tool_result =
        (if content tool_result = [] then
           Inl (ToolException ''Tool execution returned no content'')
         else decode_items L [] (content tool_result)))"
  by (auto simp: new_ToolResult_def default_arg_def parse_mcp_tool_result_def
      split: sum.splits option.splits)

theorem new_ToolResult_default_witness:
  "new_ToolResult accept_TextContents [new_TextContent None ''done'' None] None =
     Inr \<lparr>content =
            [Text \<lparr>tc_type = ''text'', tc_text = ''done'', tc_mime_type = Some ''text/plain''\<rparr>],
          isError = False\<rparr> \<and>
   new_ToolResult accept_TextContents [new_TextContent None ''done'' None] (Some True) =
     Inr \<lparr>content =
            [Text \<lparr>tc_type = ''text'', tc_text = ''done'', tc_mime_type = Some ''text/plain''\<rparr>],
          isError = True\<rparr> \<and>
   accept_TextContents [new_TextContent None ''done'' None] =
     Inr [Text \<lparr>tc_type = ''text'', tc_text = ''done'', tc_mime_type = Some ''text/plain''\<rparr>] \<and>
   new_ToolResult accept_items [TextContent ''done''] None =
     Inr \<lparr>content = [TextContent ''done''], isError = False\<rparr> \<and>
   parse_mcp_tool_result sample_renderings \<lparr>content = [TextContent ''done''], isError = False\<rparr> =
     Inr ''done''"
  using
    new_ToolResult_default
      [where validate_content = accept_TextContents
         and raw = "[new_TextContent None ''done'' None]" and flag = None
         and r = "\<lparr>content =
                    [Text \<lparr>tc_type = ''text'', tc_text = ''done'',
                           tc_mime_type = Some ''text/plain''\<rparr>],
                  isError = False\<rparr>"
         and items = "[Text \<lparr>tc_type = ''text'', tc_text = ''done'',
                             tc_mime_type = Some ''text/plain''\<rparr>]"
         and validate_items = accept_items and raw_items = "[TextContent ''done'']"
         and tool_result = "\<lparr>content = [TextContent ''done''], isError = False\<rparr>"
         and L = sample_renderings]
    new_ToolResult_default
      [where validate_content = accept_TextContents
         and raw = "[new_TextContent None ''done'' None]" and flag = "Some True"
         and r = "\<lparr>content =
                    [Text \<lparr>tc_type = ''text'', tc_text = ''done'',
                           tc_mime_type = Some ''text/plain''\<rparr>],
                  isError = True\<rparr>"
         and items = "[Text \<lparr>tc_type = ''text'', tc_text = ''done'',
                             tc_mime_type = Some ''text/plain''\<rparr>]"
         and validate_items = accept_items and raw_items = "[TextContent ''done'']"
         and tool_result = "\<lparr>content = [TextContent ''done''], isError = False\<rparr>"
         and L = sample_renderings]
  by (simp add: new_ToolResult_def accept_TextContents_def accept_items_def new_TextContent_def
      default_arg_def)

text \<open>
  C5.  For every result: when the error flag is set, decoding fails with a
  \<^verbatim>\<open>ToolException\<close> whose message carries the rendering of the raw content, whatever
  the content is (nothing of it is decoded); when the flag is clear and the content is
  empty, decoding fails with the \<^verbatim>\<open>ToolException\<close> for missing content.
\<close>

theorem parse_error_flag_or_empty:
  "(isError r \<longrightarrow>
      parse_mcp_tool_result L r =
        Inl (ToolException (''Tool execution failed: '' @ repr_content L (content r)))) \<and>
   (\<not> isError r \<and> content r = [] \<longrightarrow>
      parse_mcp_tool_result L r = Inl (ToolException ''Tool execution returned no content''))"
  by (simp add: parse_mcp_tool_result_def)

theorem parse_error_flag_or_empty_witness:
  "isError \<lparr>content = [TextContent ''ok'', OtherContent ''audio''], isError = True\<rparr> \<and>
   parse_mcp_tool_result sample_renderings
      \<lparr>content = [TextContent ''ok'', OtherContent ''audio''], isError = True\<rparr> =
     Inl (ToolException ''Tool execution failed: [...]'') \<and>
   \<not> isError \<lparr>content = ([] :: content_item list), isError = False\<rparr> \<and>
   content \<lparr>content = ([] :: content_item list), isError = False\<rparr> = [] \<and>
   parse_mcp_tool_result sample_renderings \<lparr>content = [], isError = False\<rparr> =
     Inl (ToolException ''Tool execution returned no content'')"
  using
    parse_error_flag_or_empty
      [of "\<lparr>content = [TextContent ''ok'', OtherContent ''audio''], isError = True\<rparr>"
          sample_renderings]
    parse_error_flag_or_empty [of "\<lparr>content = [], isError = False\<rparr>" sample_renderings]
  by (simp add: sample_renderings_def)

text \<open>
  C6.  For every result whose error flag is clear and whose content is a non-empty
  sequence of text items, decoding returns the texts of the items joined in their
  order, with nothing between them.
\<close>

theorem parse_text_items:
  "ts \<noteq> [] \<Longrightarrow>
   parse_mcp_tool_result L \<lparr>content = map TextContent ts, isError = False\<rparr> = Inr (concat ts)"
  by (simp add: parse_mcp_tool_result_def decode_text_items)

theorem parse_text_items_witness:
  "[''ab'', ''cd''] \<noteq> [] \<and>
   parse_mcp_tool_result sample_renderings
      \<lparr>content = [TextContent ''ab'', TextContent ''cd''], isError = False\<rparr> = Inr ''abcd''"
  using parse_text_items [of "[''ab'', ''cd'']" sample_renderings]
  by simp

lemma resource_without_type:
  "resource_text r = None \<Longrightarrow> resource_blob r = None \<Longrightarrow> resource_type r = None \<Longrightarrow>
     decode_items L acc (EmbeddedResource r # rest) =
       Inl (AttributeError (str_attribute_error L r))"
  by simp

text \<open>
  C2, as stated, asks that a binary payload which cannot be decoded as UTF-8 is
  appended in its string form instead of failing.  The decoder calls
  \<^verbatim>\<open>resource.blob.decode()\<close> on every \<^verbatim>\<open>bytes\<close> payload, and the string form is the
  branch for a payload that is not \<^verbatim>\<open>bytes\<close>: on the single byte FF, which is not
  UTF-8, decoding fails with \<^verbatim>\<open>UnicodeDecodeError\<close>.
\<close>

theorem parse_invalid_utf8_fails:
  "\<not> utf8_valid [0xFF] \<and>
   parse_mcp_tool_result sample_renderings
     \<lparr>content = [EmbeddedResource
         \<lparr>resource_type = None, resource_text = None, resource_blob = Some (Bytes [0xFF])\<rparr>],
      isError = False\<rparr> = Inl (UnicodeDecodeError ''invalid utf-8'')"
  by (simp add: parse_mcp_tool_result_def bytes_decode_def sample_renderings_def)

text \<open>
  C2, amended.  For every embedded-resource item whose resource has no text payload:
  when its binary payload is a \<^verbatim>\<open>bytes\<close> object holding valid UTF-8, the decoder appends
  the text those bytes encode and goes on; when the payload is not a \<^verbatim>\<open>bytes\<close> object,
  the decoder appends its string form and goes on; when the payload is a \<^verbatim>\<open>bytes\<close>
  object that is not valid UTF-8, the decoder fails with \<^verbatim>\<open>UnicodeDecodeError\<close>.  The
  decoder fails with the \<^verbatim>\<open>ToolException\<close> that names a resource type only when one of
  its items is a resource with neither payload and with that type; a resource with
  neither payload that has a type makes it fail so.
\<close>

theorem resource_item_decoding:
  "(resource_text r = None \<longrightarrow>
      (resource_blob r = Some (Bytes bs) \<and> utf8_valid bs \<longrightarrow>
         decode_items L acc (EmbeddedResource r # rest) =
           decode_items L (acc @ text_of_bytes bs) rest) \<and>
      (resource_blob r = Some (NotBytes s) \<longrightarrow>
         decode_items L acc (EmbeddedResource r # rest) = decode_items L (acc @ s) rest) \<and>
      (resource_blob r = Some (Bytes bs) \<and> \<not> utf8_valid bs \<longrightarrow>
         decode_items L acc (EmbeddedResource r # rest) =
           Inl (UnicodeDecodeError (str_decode_error L bs))) \<and>
      (resource_blob r = None \<and> resource_type r = Some kind \<longrightarrow>
         decode_items L acc (EmbeddedResource r # rest) =
           Inl (ToolException (''Unexpected resource type: '' @ kind)))) \<and>
   (decode_items L acc items = Inl (ToolException (''Unexpected resource type: '' @ k)) \<longrightarrow>
      (\<exists>r'. EmbeddedResource r' \<in> set items \<and> resource_text r' = None \<and>
          resource_blob r' = None \<and> resource_type r' = Some k))"
  using resource_item_step [of r L acc rest] resource_error_origin [of L acc items k]
  by auto

theorem resource_item_decoding_witness:
  "utf8_valid [0x68, 0x69] \<and>
   decode_items sample_renderings ''say: ''
     [EmbeddedResource
        \<lparr>resource_type = None, resource_text = None,
         resource_blob = Some (Bytes [0x68, 0x69])\<rparr>,
      TextContent ''!''] = Inr ''say: hi!'' \<and>
   decode_items sample_renderings ''say: ''
     [EmbeddedResource
        \<lparr>resource_type = None, resource_text = None,
         resource_blob = Some (NotBytes ''aGk='')\<rparr>,
      TextContent ''!''] = Inr ''say: aGk=!'' \<and>
   \<not> utf8_valid [0xC0, 0x80] \<and>
   decode_items sample_renderings ''say: ''
     [EmbeddedResource
        \<lparr>resource_type = None, resource_text = None,
         resource_blob = Some (Bytes [0xC0, 0x80])\<rparr>,
      TextContent ''!''] = Inl (UnicodeDecodeError ''invalid utf-8'') \<and>
   decode_items sample_renderings ''say: ''
     [EmbeddedResource
        \<lparr>resource_type = Some ''link'', resource_text = None, resource_blob = None\<rparr>,
      TextContent ''!''] = Inl (ToolException ''Unexpected resource type: link'') \<and>
   (\<exists>r'. EmbeddedResource r' \<in>
            set [EmbeddedResource
                   \<lparr>resource_type = Some ''link'', resource_text = None,
                    resource_blob = None\<rparr>,
                 TextContent ''!''] \<and>
         resource_text r' = None \<and> resource_blob r' = None \<and>
         resource_type r' = Some ''link'')"
  using
    resource_item_decoding
      [where r = "\<lparr>resource_type = None, resource_text = None,
                   resource_blob = Some (Bytes [0x68, 0x69])\<rparr>"
         and bs = "[0x68, 0x69]" and L = sample_renderings and acc = "''say: ''"
         and rest = "[TextContent ''!'']" and s = "''aGk=''" and kind = "''link''"
         and items = "[]" and k = "''none''"]
    resource_item_decoding
      [where r = "\<lparr>resource_type = None, resource_text = None,
                   resource_blob = Some (NotBytes ''aGk='')\<rparr>"
         and bs = "[0x68, 0x69]" and L = sample_renderings and acc = "''say: ''"
         and rest = "[TextContent ''!'']" and s = "''aGk=''" and kind = "''link''"
         and items = "[]" and k = "''none''"]
    resource_item_decoding
      [where r = "\<lparr>resource_type = None, resource_text = None,
                   resource_blob = Some (Bytes [0xC0, 0x80])\<rparr>"
         and bs = "[0xC0, 0x80]" and L = sample_renderings and acc = "''say: ''"
         and rest = "[TextContent ''!'']" and s = "''aGk=''" and kind = "''link''"
         and items = "[]" and k = "''none''"]
    resource_item_decoding
      [where r = "\<lparr>resource_type = Some ''link'', resource_text = None,
                   resource_blob = None\<rparr>"
         and bs = "[]" and L = sample_renderings and acc = "''say: ''"
         and rest = "[TextContent ''!'']" and s = "''aGk=''" and kind = "''link''"
         and items = "[EmbeddedResource
                         \<lparr>resource_type = Some ''link'', resource_text = None,
                          resource_blob = None\<rparr>,
                       TextContent ''!'']"
         and k = "''link''"]
    text_of_hi
  by (simp add: sample_renderings_def)

section \<open>The tool adapter\<close>

text \<open>
  \<^verbatim>\<open>McpToLangChainAdapter\<close>, the class \<^verbatim>\<open>_create_langchain_tools\<close> declares for each tool.
  The connector is an object of another module: what awaiting its \<^verbatim>\<open>call_tool\<close> does
  is a parameter, a function of the tool name, the arguments and the state \<open>'w\<close> of
  everything outside the adapter, which gives back the returned result or the raised
  exception, and the new state.  The compiled argument model, made by
  \<^verbatim>\<open>jsonschema_to_pydantic\<close>, is a value of a type \<open>'m\<close> that is not looked into.  The two
  log lines of \<^verbatim>\<open>_arun\<close> are left out.
\<close>

type_synonym kwargs = "(string \<times> json) list"

type_synonym 'w call_tool = "string \<Rightarrow> kwargs \<Rightarrow> 'w \<Rightarrow> (exn + CallToolResult) \<times> 'w"

record 'm McpToLangChainAdapter =
  adapter_name :: string
  adapter_description :: string
  args_schema :: 'm
  handle_tool_error :: bool

definition new_McpToLangChainAdapter ::
  "Tool \<Rightarrow> 'm \<Rightarrow> bool option \<Rightarrow> 'm McpToLangChainAdapter" where
  "new_McpToLangChainAdapter tool model flag =
     \<lparr>adapter_name = (if name tool = [] then ''NO NAME'' else name tool),
      adapter_description = (case description tool of None \<Rightarrow> [] | Some d \<Rightarrow> d),
      args_schema = model,
      handle_tool_error = default_arg True flag\<rparr>"

definition McpToLangChainAdapter_run ::
  "'w call_tool \<Rightarrow> 'm McpToLangChainAdapter \<Rightarrow> kwargs \<Rightarrow> 'w \<Rightarrow> (exn + string) \<times> 'w" where
  "McpToLangChainAdapter_run call_tool self kwargs w =
     (Inl (NotImplementedError ''MCP tools only support async operations''), w)"

definition McpToLangChainAdapter_arun ::
  "renderings \<Rightarrow> 'w call_tool \<Rightarrow> 'm McpToLangChainAdapter \<Rightarrow> kwargs \<Rightarrow> 'w \<Rightarrow>
   (exn + string) \<times> 'w" where
  "McpToLangChainAdapter_arun L call_tool self kwargs w =
     (case call_tool (adapter_name self) kwargs w of
        (Inr tool_result, w') \<Rightarrow>
          (case parse_mcp_tool_result L tool_result of
             Inr decoded \<Rightarrow> (Inr decoded, w')
           | Inl e \<Rightarrow>
               (Inr (''Error parsing result: '' @ str_exn e @ ''; Raw content: '' @
                     repr_content L (content tool_result)), w'))
      | (Inl e, w') \<Rightarrow>
          (if handle_tool_error self then
             (Inr (''Error executing MCP tool: '' @ str_exn e), w')
           else (Inl e, w')))"

text \<open>
  \<^verbatim>\<open>_create_langchain_tools\<close>, its loop over the connector's tools.  \<^verbatim>\<open>fix_schema\<close> works
  in place on \<^verbatim>\<open>tool.inputSchema\<close>, which belongs to the connector's tool: the function
  gives back, next to the adapters or the exception, the tools as the loop leaves them.
  The tools it reached carry the normalised schema, the one whose schema the compiler
  refused included; the tools after that one are as they were.
\<close>

fun dict_items :: "json \<Rightarrow> (string \<times> json) list" where
  "dict_items (JDict schema) = schema"
| "dict_items schema = []"

fun create_langchain_tools ::
  "(json \<Rightarrow> exn + 'm) \<Rightarrow> Tool list \<Rightarrow> (exn + 'm McpToLangChainAdapter list) \<times> Tool list" where
  "create_langchain_tools jsonschema_to_pydantic [] = (Inr [], [])"
| "create_langchain_tools jsonschema_to_pydantic (tool # tools) =
     (let fixed = fix_schema (JDict (inputSchema tool));
          tool' = tool\<lparr>inputSchema := dict_items fixed\<rparr>
      in case jsonschema_to_pydantic fixed of
           Inl e \<Rightarrow> (Inl e, tool' # tools)
         | Inr model \<Rightarrow>
             (case create_langchain_tools jsonschema_to_pydantic tools of
                (Inl e, tools') \<Rightarrow> (Inl e, tool' # tools')
              | (Inr langchain_tools, tools') \<Rightarrow>
                  (Inr (new_McpToLangChainAdapter tool' model None # langchain_tools),
                   tool' # tools')))"

text \<open>
  For the closed examples: a tool, its adapter, and two connectors over a state that
  is the list of the calls made so far.  One connector answers every call with a text,
  the other raises on every call.
\<close>

definition sample_tool :: Tool where
  "sample_tool =
     \<lparr>name = ''add'', description = None,
      inputSchema = [(''type'', JList [JStr ''object'', JStr ''null''])],
      outputSchema = None\<rparr>"

definition answering_call_tool :: "(string \<times> kwargs) list call_tool" where
  "answering_call_tool tool_name kwargs w =
     (Inr \<lparr>content = [TextContent ''4''], isError = False\<rparr>, w @ [(tool_name, kwargs)])"

definition refusing_call_tool :: "(string \<times> kwargs) list call_tool" where
  "refusing_call_tool tool_name kwargs w =
     (Inl (OtherException ''connection closed''), w @ [(tool_name, kwargs)])"

lemma arun_connector_raises:
  "call_tool (adapter_name self) kwargs w = (Inl e, w') \<Longrightarrow>
     McpToLangChainAdapter_arun L call_tool self kwargs w =
       (if handle_tool_error self then (Inr (''Error executing MCP tool: '' @ str_exn e), w')
        else (Inl e, w'))"
  by (simp add: McpToLangChainAdapter_arun_def)

lemma arun_calls_connector:
  "snd (McpToLangChainAdapter_arun L call_tool self kwargs w) =
     snd (call_tool (adapter_name self) kwargs w)"
  by (simp add: McpToLangChainAdapter_arun_def split: prod.splits sum.splits)

text \<open>
  C8.  For every adapter and all keyword arguments, the synchronous call fails with
  \<^verbatim>\<open>NotImplementedError\<close> and leaves the outside state as it was: whatever the connector
  would do on a call, it is not called.
\<close>

theorem run_not_supported:
  "McpToLangChainAdapter_run call_tool self kwargs w =
     (Inl (NotImplementedError ''MCP tools only support async operations''), w)"
  by (simp add: McpToLangChainAdapter_run_def)

theorem run_not_supported_witness:
  "McpToLangChainAdapter_run answering_call_tool
      (new_McpToLangChainAdapter sample_tool JNull None) [(''a'', JInt 2), (''b'', JInt 2)] [] =
     (Inl (NotImplementedError ''MCP tools only support async operations''), []) \<and>
   McpToLangChainAdapter_arun sample_renderings answering_call_tool
      (new_McpToLangChainAdapter sample_tool JNull None) [(''a'', JInt 2), (''b'', JInt 2)] [] =
     (Inr ''4'', [(''add'', [(''a'', JInt 2), (''b'', JInt 2)])])"
  using run_not_supported
    [of answering_call_tool "new_McpToLangChainAdapter sample_tool JNull None"
        "[(''a'', JInt 2), (''b'', JInt 2)]" "[]"]
  by (simp add: McpToLangChainAdapter_arun_def answering_call_tool_def
      new_McpToLangChainAdapter_def sample_tool_def parse_mcp_tool_result_def)

text \<open>
  C7.  For every adapter and every exception the connector raises on the call: when
  \<^verbatim>\<open>handle_tool_error\<close> is set, the asynchronous call returns the text
  \<^verbatim>\<open>"Error executing MCP tool: "\<close> followed by the description of the exception, and
  raises nothing; when it is not set, the same exception reaches the caller.  An
  adapter built without the flag has it set.
\<close>

theorem arun_connector_error:
  "(call_tool (adapter_name self) kwargs w = (Inl e, w') \<longrightarrow>
      (handle_tool_error self \<longrightarrow>
         McpToLangChainAdapter_arun L call_tool self kwargs w =
           (Inr (''Error executing MCP tool: '' @ str_exn e), w')) \<and>
      (\<not> handle_tool_error self \<longrightarrow>
         McpToLangChainAdapter_arun L call_tool self kwargs w = (Inl e, w'))) \<and>
   handle_tool_error (new_McpToLangChainAdapter tool model None)"
  by (simp add: arun_connector_raises new_McpToLangChainAdapter_def default_arg_def)

theorem arun_connector_error_witness:
  "refusing_call_tool (adapter_name (new_McpToLangChainAdapter sample_tool JNull None)) [] [] =
     (Inl (OtherException ''connection closed''), [(''add'', [])]) \<and>
   handle_tool_error (new_McpToLangChainAdapter sample_tool JNull None) \<and>
   McpToLangChainAdapter_arun sample_renderings refusing_call_tool
      (new_McpToLangChainAdapter sample_tool JNull None) [] [] =
     (Inr ''Error executing MCP tool: connection closed'', [(''add'', [])]) \<and>
   refusing_call_tool
      (adapter_name (new_McpToLangChainAdapter sample_tool JNull (Some False))) [] [] =
     (Inl (OtherException ''connection closed''), [(''add'', [])]) \<and>
   \<not> handle_tool_error (new_McpToLangChainAdapter sample_tool JNull (Some False)) \<and>
   McpToLangChainAdapter_arun sample_renderings refusing_call_tool
      (new_McpToLangChainAdapter sample_tool JNull (Some False)) [] [] =
     (Inl (OtherException ''connection closed''), [(''add'', [])])"
  using
    arun_connector_error
      [of refusing_call_tool "new_McpToLangChainAdapter sample_tool JNull None" "[]" "[]"
          "OtherException ''connection closed''" "[(''add'', [])]" sample_renderings
          sample_tool JNull]
    arun_connector_error
      [of refusing_call_tool "new_McpToLangChainAdapter sample_tool JNull (Some False)" "[]" "[]"
          "OtherException ''connection closed''" "[(''add'', [])]" sample_renderings
          sample_tool JNull]
  by (simp add: refusing_call_tool_def new_McpToLangChainAdapter_def sample_tool_def
      default_arg_def)

section \<open>The agent\<close>

text \<open>
  \<^verbatim>\<open>LangChainAgent\<close>.  The executor is an object of the agent framework; of its fields
  the model keeps the ones the constructor call sets.  Awaiting its \<^verbatim>\<open>ainvoke\<close> is a
  parameter, like \<^verbatim>\<open>call_tool\<close> above: a function of the executor as it is at the call,
  the query, the history and the outside state, which gives back the returned dict or
  the raised exception, and the new outside state; it does not change the executor.
  \<^verbatim>\<open>run\<close> returns its outcome, the agent after the call and the outside state.
\<close>

record BaseConnector =
  connector_tools :: "Tool list"

record ('m, 'llm) AgentExecutor =
  executor_llm :: 'llm
  executor_tools :: "'m McpToLangChainAdapter list"
  max_iterations :: int

record ('m, 'llm) LangChainAgent =
  connector :: BaseConnector
  llm :: 'llm
  max_steps :: int
  tools :: "'m McpToLangChainAdapter list"
  agent :: "('m, 'llm) AgentExecutor option"

type_synonym ('m, 'llm, 'msg, 'out, 'w) ainvoke =
  "('m, 'llm) AgentExecutor \<Rightarrow> string \<Rightarrow> 'msg list \<Rightarrow> 'w \<Rightarrow>
   (exn + (string \<times> 'out) list) \<times> 'w"

definition new_LangChainAgent ::
  "BaseConnector \<Rightarrow> 'llm \<Rightarrow> int option \<Rightarrow> ('m, 'llm) LangChainAgent" where
  "new_LangChainAgent c l steps =
     \<lparr>connector = c, llm = l, max_steps = default_arg 5 steps, tools = [], agent = None\<rparr>"

definition create_agent :: "('m, 'llm) LangChainAgent \<Rightarrow> ('m, 'llm) AgentExecutor" where
  "create_agent self =
     \<lparr>executor_llm = llm self, executor_tools = tools self, max_iterations = max_steps self\<rparr>"

definition initialize ::
  "(json \<Rightarrow> exn + 'm) \<Rightarrow> ('m, 'llm) LangChainAgent \<Rightarrow>
   (exn + unit) \<times> ('m, 'llm) LangChainAgent" where
  "initialize jsonschema_to_pydantic self =
     (case create_langchain_tools jsonschema_to_pydantic (connector_tools (connector self)) of
        (Inl e, tools') \<Rightarrow>
          (Inl e, self\<lparr>connector := (connector self)\<lparr>connector_tools := tools'\<rparr>\<rparr>)
      | (Inr langchain_tools, tools') \<Rightarrow>
          (let self1 = self\<lparr>connector := (connector self)\<lparr>connector_tools := tools'\<rparr>,
                            tools := langchain_tools\<rparr>
           in (Inr (), self1\<lparr>agent := Some (create_agent self1)\<rparr>)))"

definition output_of :: "exn + (string \<times> 'out) list \<Rightarrow> exn + 'out" where
  "output_of result =
     (case result of
        Inl e \<Rightarrow> Inl e
      | Inr d \<Rightarrow>
          (case map_of d ''output'' of
             None \<Rightarrow> Inl (KeyError (CHR 0x27 # ''output'' @ [CHR 0x27]))
           | Some out \<Rightarrow> Inr out))"

definition run ::
  "('m, 'llm, 'msg, 'out, 'w) ainvoke \<Rightarrow> ('m, 'llm) LangChainAgent \<Rightarrow> string \<Rightarrow>
   int option \<Rightarrow> 'msg list option \<Rightarrow> 'w \<Rightarrow>
   (exn + 'out) \<times> ('m, 'llm) LangChainAgent \<times> 'w" where
  "run ainvoke self query max_steps_arg chat_history w =
     (case agent self of
        None \<Rightarrow> (Inl (RuntimeError ''MCP client is not initialized''), self, w)
      | Some executor \<Rightarrow>
          (let executor' = (case max_steps_arg of
                              Some n \<Rightarrow> executor\<lparr>max_iterations := n\<rparr>
                            | None \<Rightarrow> executor);
               self' = self\<lparr>agent := Some executor'\<rparr>;
               history = (case chat_history of None \<Rightarrow> [] | Some h \<Rightarrow> h);
               (result, w') = ainvoke executor' query history w
           in (output_of result, self', w')))"

text \<open>
  A sequence of \<^verbatim>\<open>run\<close> calls on one agent, each with its own query, step-limit
  argument and history, the outcomes dropped: what is left is the agent and the outside
  state after the last call.
\<close>

fun run_each ::
  "('m, 'llm, 'msg, 'out, 'w) ainvoke \<Rightarrow> ('m, 'llm) LangChainAgent \<Rightarrow>
   (string \<times> int option \<times> 'msg list option) list \<Rightarrow> 'w \<Rightarrow>
   ('m, 'llm) LangChainAgent \<times> 'w" where
  "run_each ainvoke self [] w = (self, w)"
| "run_each ainvoke self ((query, max_steps_arg, chat_history) # calls) w =
     (case run ainvoke self query max_steps_arg chat_history w of
        (outcome, self', w') \<Rightarrow> run_each ainvoke self' calls w')"

text \<open>
  For the closed examples: a connector with the one sample tool, a schema compiler
  that accepts every schema and one that rejects every schema, and an agent loop that
  answers with the query and writes down the step limit it was run with.
\<close>

definition sample_connector :: BaseConnector where
  "sample_connector = \<lparr>connector_tools = [sample_tool]\<rparr>"

definition accepting_compiler :: "json \<Rightarrow> exn + json" where
  "accepting_compiler schema = Inr schema"

definition rejecting_compiler :: "json \<Rightarrow> exn + json" where
  "rejecting_compiler schema = Inl (OtherException ''unsupported schema'')"

definition echo_ainvoke :: "(json, unit, string, string, int list) ainvoke" where
  "echo_ainvoke executor query history w =
     (Inr [(''input'', query), (''output'', query)], w @ [max_iterations executor])"

definition sample_agent :: "(json, unit) LangChainAgent" where
  "sample_agent = snd (initialize accepting_compiler (new_LangChainAgent sample_connector () None))"

lemma sample_agent_value:
  "sample_agent =
     \<lparr>connector =
        \<lparr>connector_tools =
           [\<lparr>name = ''add'', description = None,
             inputSchema =
               [(''anyOf'', JList [JDict [(''type'', JStr ''object'')],
                                  JDict [(''type'', JStr ''null'')]])],
             outputSchema = None\<rparr>]\<rparr>,
      llm = (), max_steps = 5,
      tools =
        [\<lparr>adapter_name = ''add'', adapter_description = [],
          args_schema =
            JDict [(''anyOf'', JList [JDict [(''type'', JStr ''object'')],
                                     JDict [(''type'', JStr ''null'')]])],
          handle_tool_error = True\<rparr>],
      agent =
        Some \<lparr>executor_llm = (),
              executor_tools =
                [\<lparr>adapter_name = ''add'', adapter_description = [],
                  args_schema =
                    JDict [(''anyOf'', JList [JDict [(''type'', JStr ''object'')],
                                             JDict [(''type'', JStr ''null'')]])],
                  handle_tool_error = True\<rparr>],
              max_iterations = 5\<rparr>\<rparr>"
  by (simp add: sample_agent_def initialize_def new_LangChainAgent_def create_agent_def
      sample_connector_def sample_tool_def accepting_compiler_def
      new_McpToLangChainAdapter_def default_arg_def)

lemma run_without_override:
  "agent self = Some executor \<Longrightarrow>
   run ainvoke self query None chat_history w =
     (case ainvoke executor query (case chat_history of None \<Rightarrow> [] | Some h \<Rightarrow> h) w of
        (result, w') \<Rightarrow> (output_of result, self, w'))"
  by (simp add: run_def split: prod.splits)

lemma run_with_override:
  "agent self = Some executor \<Longrightarrow>
   run ainvoke self query (Some n) chat_history w =
     (case ainvoke (executor\<lparr>max_iterations := n\<rparr>) query
             (case chat_history of None \<Rightarrow> [] | Some h \<Rightarrow> h) w of
        (result, w') \<Rightarrow>
          (output_of result, self\<lparr>agent := Some (executor\<lparr>max_iterations := n\<rparr>)\<rparr>, w'))"
  by (simp add: run_def split: prod.splits)

lemma run_each_without_override:
  "agent self \<noteq> None \<Longrightarrow>
   list_all (\<lambda>(query, max_steps_arg, chat_history). max_steps_arg = None) calls \<Longrightarrow>
   fst (run_each ainvoke self calls w) = self"
proof (induction calls arbitrary: w)
  case Nil
  then show ?case by simp
next
  case (Cons c calls)
  then show ?case
    by (auto simp: run_without_override split: prod.splits)
qed

lemma run_uninitialized:
  "agent self = None \<Longrightarrow>
   run ainvoke self query max_steps_arg chat_history w =
     (Inl (RuntimeError ''MCP client is not initialized''), self, w)"
  by (simp add: run_def)

lemma initialize_failed:
  "agent self = None \<Longrightarrow> initialize jsonschema_to_pydantic self = (Inl e, self') \<Longrightarrow>
   agent self' = None"
  by (auto simp: initialize_def Let_def split: sum.splits prod.splits)

text \<open>
  C9.  For every query and every agent whose initialization has not completed (its
  executor is still missing: a new agent, or one whose \<^verbatim>\<open>initialize\<close> raised), \<^verbatim>\<open>run\<close>
  fails with the \<^verbatim>\<open>RuntimeError\<close> for a client that is not initialized; the agent and the
  outside state are as before, whatever the agent loop would do: it is not driven.
\<close>

theorem run_before_initialize:
  "(agent self = None \<longrightarrow>
      run ainvoke self query max_steps_arg chat_history w =
        (Inl (RuntimeError ''MCP client is not initialized''), self, w)) \<and>
   agent (new_LangChainAgent c l steps) = None \<and>
   (agent self = None \<and> initialize jsonschema_to_pydantic self = (Inl e, self') \<longrightarrow>
      agent self' = None)"
  using run_uninitialized [of self ainvoke query max_steps_arg chat_history w]
    initialize_failed [of self jsonschema_to_pydantic e self']
  by (simp add: new_LangChainAgent_def)

theorem run_before_initialize_witness:
  "agent (new_LangChainAgent sample_connector () None :: (json, unit) LangChainAgent) = None \<and>
   run echo_ainvoke (new_LangChainAgent sample_connector () None) ''2 + 2?'' (Some 3) None [] =
     (Inl (RuntimeError ''MCP client is not initialized''),
      new_LangChainAgent sample_connector () None, []) \<and>
   initialize rejecting_compiler (new_LangChainAgent sample_connector () None) =
     (Inl (OtherException ''unsupported schema''),
      \<lparr>connector =
         \<lparr>connector_tools =
            [\<lparr>name = ''add'', description = None,
              inputSchema =
                [(''anyOf'', JList [JDict [(''type'', JStr ''object'')],
                                   JDict [(''type'', JStr ''null'')]])],
              outputSchema = None\<rparr>]\<rparr>,
       llm = (), max_steps = 5, tools = [], agent = None\<rparr>) \<and>
   run echo_ainvoke sample_agent ''2 + 2?'' None None [] = (Inr ''2 + 2?'', sample_agent, [5])"
  using
    run_before_initialize
      [of "new_LangChainAgent sample_connector () None" echo_ainvoke "''2 + 2?''" "Some 3"
          None "[]" sample_connector "()" None rejecting_compiler
          "OtherException ''unsupported schema''"
          "\<lparr>connector =
             \<lparr>connector_tools =
                [\<lparr>name = ''add'', description = None,
                  inputSchema =
                    [(''anyOf'', JList [JDict [(''type'', JStr ''object'')],
                                       JDict [(''type'', JStr ''null'')]])],
                  outputSchema = None\<rparr>]\<rparr>,
            llm = (), max_steps = 5, tools = [], agent = None\<rparr>"]
  by (simp add: initialize_def rejecting_compiler_def sample_connector_def sample_tool_def
      new_LangChainAgent_def default_arg_def sample_agent_value run_def echo_ainvoke_def
      output_of_def)

text \<open>
  C3.  For every initialized agent: a \<^verbatim>\<open>run\<close> with a step-limit argument \<open>n\<close> drives
  the agent loop with the executor's limit set to \<open>n\<close> and leaves the agent with that
  limit; a \<^verbatim>\<open>run\<close> without the argument drives the loop with the executor as it is and
  leaves the agent unchanged; so after the \<^verbatim>\<open>run\<close> with \<open>n\<close>, any number of later
  \<^verbatim>\<open>run\<close> calls without the argument leave the agent with the limit \<open>n\<close>.
\<close>

theorem run_step_limit:
  "agent self = Some executor \<longrightarrow>
     run ainvoke self query (Some n) chat_history w =
       (case ainvoke (executor\<lparr>max_iterations := n\<rparr>) query
               (case chat_history of None \<Rightarrow> [] | Some h \<Rightarrow> h) w of
          (result, w') \<Rightarrow>
            (output_of result, self\<lparr>agent := Some (executor\<lparr>max_iterations := n\<rparr>)\<rparr>, w')) \<and>
     run ainvoke self query None chat_history w =
       (case ainvoke executor query (case chat_history of None \<Rightarrow> [] | Some h \<Rightarrow> h) w of
          (result, w') \<Rightarrow> (output_of result, self, w')) \<and>
     (list_all (\<lambda>(query, max_steps_arg, chat_history). max_steps_arg = None) calls \<longrightarrow>
        fst (run_each ainvoke (fst (snd (run ainvoke self query (Some n) chat_history w)))
               calls w2) =
          self\<lparr>agent := Some (executor\<lparr>max_iterations := n\<rparr>)\<rparr>)"
proof (intro impI conjI)
  assume init: "agent self = Some executor"
  show "run ainvoke self query (Some n) chat_history w =
       (case ainvoke (executor\<lparr>max_iterations := n\<rparr>) query
               (case chat_history of None \<Rightarrow> [] | Some h \<Rightarrow> h) w of
          (result, w') \<Rightarrow>
            (output_of result, self\<lparr>agent := Some (executor\<lparr>max_iterations := n\<rparr>)\<rparr>, w'))"
    using init by (rule run_with_override)
  show "run ainvoke self query None chat_history w =
       (case ainvoke executor query (case chat_history of None \<Rightarrow> [] | Some h \<Rightarrow> h) w of
          (result, w') \<Rightarrow> (output_of result, self, w'))"
    using init by (rule run_without_override)
  assume later: "list_all (\<lambda>(query, max_steps_arg, chat_history). max_steps_arg = None) calls"
  have after: "fst (snd (run ainvoke self query (Some n) chat_history w)) =
      self\<lparr>agent := Some (executor\<lparr>max_iterations := n\<rparr>)\<rparr>"
    by (simp add: run_with_override [OF init] split: prod.splits)
  have "agent (self\<lparr>agent := Some (executor\<lparr>max_iterations := n\<rparr>)\<rparr>) \<noteq> None"
    by simp
  from run_each_without_override [OF this later] after
  show "fst (run_each ainvoke (fst (snd (run ainvoke self query (Some n) chat_history w)))
               calls w2) =
          self\<lparr>agent := Some (executor\<lparr>max_iterations := n\<rparr>)\<rparr>"
    by simp
qed

theorem run_step_limit_witness:
  "agent sample_agent = Some (the (agent sample_agent)) \<and>
   max_iterations (the (agent sample_agent)) = 5 \<and>
   run echo_ainvoke sample_agent ''first'' (Some 2) None [] =
     (Inr ''first'',
      sample_agent\<lparr>agent := Some ((the (agent sample_agent))\<lparr>max_iterations := 2\<rparr>)\<rparr>, [2]) \<and>
   run echo_ainvoke sample_agent ''first'' None None [] = (Inr ''first'', sample_agent, [5]) \<and>
   list_all (\<lambda>(query, max_steps_arg, chat_history). max_steps_arg = None)
     [(''second'', None, None), (''third'', None, Some [''first''])] \<and>
   run_each echo_ainvoke
      (fst (snd (run echo_ainvoke sample_agent ''first'' (Some 2) None [])))
      [(''second'', None, None), (''third'', None, Some [''first''])] [2] =
     (sample_agent\<lparr>agent := Some ((the (agent sample_agent))\<lparr>max_iterations := 2\<rparr>)\<rparr>,
      [2, 2, 2])"
  using
    run_step_limit
      [of sample_agent "the (agent sample_agent)" echo_ainvoke "''first''" 2 None "[]"
          "[(''second'', None, None), (''third'', None, Some [''first''])]" "[2]"]
  by (simp add: sample_agent_value run_def echo_ainvoke_def output_of_def)

end
